theory Spec2Isabelle
  imports Main "HOL-Library.Word"
begin

section \<open>The voice-assistant screen of FlowShield: data model\<close>

text \<open>
  The development embeds \<^verbatim>\<open>src/app/(tabs)/index.tsx\<close>. The file holds two stateful React
  components. \<^verbatim>\<open>HomeScreen\<close> owns \<^verbatim>\<open>shouldConnect\<close> and \<^verbatim>\<open>error\<close>; \<^verbatim>\<open>RoomContent\<close>,
  rendered only inside the LiveKit room, owns \<^verbatim>\<open>transcripts\<close> and \<^verbatim>\<open>isInitialized\<close>.
  Every \<^verbatim>\<open>useState\<close> cell is a record field, every setter call a record update, and
  every reading of the clock or of the random generator an explicit input.
\<close>

subsection \<open>JavaScript values\<close>

text \<open>
  IEEE doubles are never inspected by the code under study, so the type of numbers is
  left unspecified.
\<close>

typedecl js_number

text \<open>
  A run-time value: what \<^verbatim>\<open>JSON.parse\<close> can return, plus \<^verbatim>\<open>undefined\<close>, which a
  property read yields for an absent key. An object is the list of its own properties.
\<close>

datatype jsval =
    JUndefined
  | JNull
  | JBool bool
  | JNumber js_number
  | JString string
  | JArray "jsval list"
  | JObject "(string \<times> jsval) list"

datatype js_error = SyntaxError | TypeError | OtherError string

text \<open>
  The reads \<^verbatim>\<open>data.type\<close> and \<^verbatim>\<open>data.text\<close>. Reading a property of \<^verbatim>\<open>null\<close> or
  \<^verbatim>\<open>undefined\<close> throws a TypeError; booleans, numbers, strings and arrays have neither
  a \<^verbatim>\<open>type\<close> nor a \<^verbatim>\<open>text\<close> property, so the read gives \<^verbatim>\<open>undefined\<close>. The function is
  only ever applied to these two keys.
\<close>

fun getProp :: "jsval \<Rightarrow> string \<Rightarrow> js_error + jsval" where
  "getProp JUndefined k = Inl TypeError"
| "getProp JNull k = Inl TypeError"
| "getProp (JObject kvs) k = Inr (case map_of kvs k of None \<Rightarrow> JUndefined | Some v \<Rightarrow> v)"
| "getProp v k = Inr JUndefined"

text \<open>\<^verbatim>\<open>!x\<close> for a value that is a string or \<^verbatim>\<open>undefined\<close>: both \<^verbatim>\<open>undefined\<close> and the
  empty string are falsy.\<close>

definition falsy :: "string option \<Rightarrow> bool" where
  "falsy x = (case x of None \<Rightarrow> True | Some s \<Rightarrow> s = [])"

subsection \<open>Numbers printed in decimal\<close>

fun digits_of :: "nat \<Rightarrow> string" where
  "digits_of n =
     (if n < 10 then [''0123456789'' ! n]
      else digits_of (n div 10) @ [''0123456789'' ! (n mod 10)])"

declare digits_of.simps [simp del]

text \<open>\<^verbatim>\<open>Number.prototype.toString\<close> on an integer below \<open>10\<^sup>2\<^sup>1\<close> in magnitude, which
  covers every value of \<^verbatim>\<open>Date.now()\<close> and every array length.\<close>

definition number_toString :: "int \<Rightarrow> string" where
  "number_toString i = (if i < 0 then ''-'' @ digits_of (nat (- i)) else digits_of (nat i))"

subsection \<open>Transcript entries\<close>

text \<open>
  The interface \<^verbatim>\<open>TranscriptMessage\<close>. The fields \<^verbatim>\<open>id\<close> and \<^verbatim>\<open>text\<close> are renamed
  \<open>id_msg\<close> and \<open>text_msg\<close> (\<open>id\<close> is the identity function of HOL, \<open>text\<close> a keyword
  of Isabelle). The declared type of \<^verbatim>\<open>text\<close> is \<^verbatim>\<open>string\<close>, but the data handler
  stores \<^verbatim>\<open>data.text\<close> unchecked, so at run time the field holds any value.
  A \<^verbatim>\<open>Date\<close> is its number of milliseconds since the epoch.
\<close>

record TranscriptMessage =
  id_msg :: string
  text_msg :: jsval
  participant :: string
  timestamp :: int
  isUser :: bool

text \<open>A LiveKit participant, of which the code reads \<^verbatim>\<open>identity\<close> only.\<close>

record Participant =
  identity :: string

text \<open>
  What one call of \<^verbatim>\<open>addTranscriptMessage\<close> reads from the outside world:
  \<^verbatim>\<open>Date.now()\<close>, the string that \<^verbatim>\<open>Math.random()\<close> prints as, and \<^verbatim>\<open>new Date()\<close>.
\<close>

record stamp =
  date_now :: int
  math_random :: string
  new_date :: int

subsection \<open>The state of the two components\<close>

record home_state =
  shouldConnect :: bool
  error :: "string option"

record room_content =
  transcripts :: "TranscriptMessage list"
  isInitialized :: bool

section \<open>HomeScreen\<close>

definition connectToRoom :: "string option \<Rightarrow> string option \<Rightarrow> home_state \<Rightarrow> home_state" where
  "connectToRoom LIVEKIT_URL LIVEKIT_JWT h =
     (if falsy LIVEKIT_URL then h\<lparr>error := Some ''LIVEKIT_URL is not configured''\<rparr>
      else if falsy LIVEKIT_JWT then
        h\<lparr>error := Some ''LIVEKIT_JWT is not configured. Please add your JWT token to the .env file or app.json extra config.''\<rparr>
      else h\<lparr>error := None, shouldConnect := True\<rparr>)"

definition disconnect :: "home_state \<Rightarrow> home_state" where
  "disconnect h = h\<lparr>shouldConnect := False\<rparr>"

text \<open>The \<^verbatim>\<open>catch\<close> branch of \<^verbatim>\<open>initAudio\<close>.\<close>

definition initAudio_failed :: "home_state \<Rightarrow> home_state" where
  "initAudio_failed h = h\<lparr>error := Some ''Failed to initialize audio session''\<rparr>"

text \<open>
  What \<^verbatim>\<open>HomeScreen\<close> returns: the LiveKit room when \<^verbatim>\<open>shouldConnect && !error\<close>,
  otherwise the start screen, which shows the error when there is one.
\<close>

datatype screen = VoiceAssistantView | StartView "string option"

definition render :: "home_state \<Rightarrow> screen" where
  "render h =
     (if shouldConnect h \<and> falsy (error h) then VoiceAssistantView
      else StartView (if falsy (error h) then None else error h))"

section \<open>RoomContent\<close>

subsection \<open>The transcript\<close>

text \<open>
  \<^verbatim>\<open>addTranscriptMessage\<close> builds the entry and queues the functional update
  \<^verbatim>\<open>prev => [...prev, newMessage]\<close>, which React applies to the latest list, whichever
  render the calling closure was created in.
\<close>

definition newMessage :: "stamp \<Rightarrow> jsval \<Rightarrow> string \<Rightarrow> bool \<Rightarrow> TranscriptMessage" where
  "newMessage st txt who usr =
     \<lparr>id_msg = number_toString (date_now st) @ math_random st,
      text_msg = txt,
      participant = who,
      timestamp = new_date st,
      isUser = usr\<rparr>"

definition addTranscriptMessage ::
  "stamp \<Rightarrow> jsval \<Rightarrow> string \<Rightarrow> bool \<Rightarrow> room_content \<Rightarrow> room_content" where
  "addTranscriptMessage st txt who usr r =
     r\<lparr>transcripts := transcripts r @ [newMessage st txt who usr]\<rparr>"

definition clearTranscripts :: "room_content \<Rightarrow> room_content" where
  "clearTranscripts r = r\<lparr>transcripts := []\<rparr>"

text \<open>The label above a message: \<^verbatim>\<open>message.isUser ? 'You' : message.participant\<close>.\<close>

definition participantName :: "TranscriptMessage \<Rightarrow> string" where
  "participantName m = (if isUser m then ''You'' else participant m)"

text \<open>
  A sequence of calls of \<^verbatim>\<open>addTranscriptMessage\<close>, each with its arguments and with
  what it reads from the clock.
\<close>

record append_call =
  call_stamp :: stamp
  call_text :: jsval
  call_participant :: string
  call_isUser :: bool

fun append_all :: "append_call list \<Rightarrow> room_content \<Rightarrow> room_content" where
  "append_all [] r = r"
| "append_all (c # cs) r =
     append_all cs
       (addTranscriptMessage (call_stamp c) (call_text c) (call_participant c) (call_isUser c) r)"

subsection \<open>The effects\<close>

text \<open>The state of a freshly mounted \<^verbatim>\<open>RoomContent\<close>.\<close>

definition room_initial :: room_content where
  "room_initial = \<lparr>transcripts = [], isInitialized = False\<rparr>"

text \<open>
  The first effect, with dependency \<^verbatim>\<open>[isInitialized]\<close>: it runs after the first render
  and again after \<^verbatim>\<open>isInitialized\<close> has changed.
\<close>

definition welcomeEffect :: "stamp \<Rightarrow> room_content \<Rightarrow> room_content" where
  "welcomeEffect st r =
     (if \<not> isInitialized r then
        (addTranscriptMessage st
           (JString ''Connected to FlowShield Assistant! Start speaking...'') ''System'' False r)
        \<lparr>isInitialized := True\<rparr>
      else r)"

text \<open>
  The second effect, with dependency \<^verbatim>\<open>[participants]\<close>: it runs each time
  \<^verbatim>\<open>useParticipants\<close> returns a new array. Each participant comes with the clock
  readings of its own call of \<^verbatim>\<open>addTranscriptMessage\<close>.
\<close>

fun announce :: "(Participant \<times> stamp) list \<Rightarrow> room_content \<Rightarrow> room_content" where
  "announce [] r = r"
| "announce ((p, st) # ps) r =
     announce ps
       (addTranscriptMessage st
          (JString (''Assistant '' @ identity p @ '' is in the room'')) ''System'' False r)"

datatype console_entry = ConsoleLog "jsval list" | ConsoleError string js_error

definition participantsEffect ::
  "(Participant \<times> stamp) list \<Rightarrow> room_content \<Rightarrow> console_entry list \<times> room_content" where
  "participantsEffect participants r =
     (if length participants > 0 then
        ([ConsoleLog [JString (''Connected with '' @ number_toString (int (length participants))
                                @ '' participant(s)'')]],
         announce participants r)
      else ([], r))"

subsection \<open>Data messages\<close>

type_synonym payload = "8 word list"

text \<open>
  \<^verbatim>\<open>handleDataReceived\<close>. The platform functions \<^verbatim>\<open>TextDecoder.decode\<close> and
  \<^verbatim>\<open>JSON.parse\<close> are not part of the repository: their composition is the parameter
  \<open>parse\<close>, which returns the parsed value or the exception thrown. Every exception
  raised inside \<^verbatim>\<open>try\<close> ends in the \<^verbatim>\<open>catch\<close> branch, which only writes to the console.
\<close>

definition handleDataReceived ::
  "(payload \<Rightarrow> js_error + jsval) \<Rightarrow> stamp \<Rightarrow> payload \<Rightarrow> Participant option \<Rightarrow>
     room_content \<Rightarrow> console_entry list \<times> room_content" where
  "handleDataReceived parse st bytes sender r =
     (case parse bytes of
        Inl e \<Rightarrow> ([ConsoleError ''Error parsing data message:'' e], r)
      | Inr data \<Rightarrow>
          (case getProp data ''type'' of
             Inl e \<Rightarrow>
               ([ConsoleLog [JString ''Data received:'', data],
                 ConsoleError ''Error parsing data message:'' e], r)
           | Inr ty \<Rightarrow>
               if ty = JString ''transcription'' then
                 (let isUser = (case sender of None \<Rightarrow> True | Some p \<Rightarrow> identity p = ''user'');
                      who = (case sender of None \<Rightarrow> ''User''
                             | Some p \<Rightarrow> if identity p = [] then ''User'' else identity p)
                  in case getProp data ''text'' of
                       Inl e \<Rightarrow>
                         ([ConsoleLog [JString ''Data received:'', data],
                           ConsoleError ''Error parsing data message:'' e], r)
                     | Inr txt \<Rightarrow>
                         ([ConsoleLog [JString ''Data received:'', data]],
                          addTranscriptMessage st txt who isUser r))
               else ([ConsoleLog [JString ''Data received:'', data]], r)))"

text \<open>
  The room is an event emitter, and \<^verbatim>\<open>room.on('dataReceived', handleDataReceived)\<close> is
  the only subscription the code makes: an event of any other name, whatever its
  arguments, reaches no listener of this code. \<^verbatim>\<open>LiveKitRoom\<close> is given no \<^verbatim>\<open>onError\<close> or \<^verbatim>\<open>onDisconnected\<close> callback
  either.
\<close>

datatype room_event =
    DataReceived payload "Participant option"
  | OtherEvent string "jsval list"

definition room_emit ::
  "(payload \<Rightarrow> js_error + jsval) \<Rightarrow> stamp \<Rightarrow> room_event \<Rightarrow>
     room_content \<Rightarrow> console_entry list \<times> room_content" where
  "room_emit parse st ev r =
     (case ev of
        DataReceived bytes sender \<Rightarrow> handleDataReceived parse st bytes sender r
      | OtherEvent name args \<Rightarrow> ([], r))"

section \<open>The two components together\<close>

text \<open>
  \<^verbatim>\<open>HomeScreen\<close> renders \<^verbatim>\<open>RoomContent\<close> only on the branch \<^verbatim>\<open>shouldConnect && !error\<close>.
  A component that is no longer rendered is unmounted and its state cells are dropped;
  when it is rendered again it starts from its initial state. The field \<open>room\<close> is the
  state of the mounted \<^verbatim>\<open>RoomContent\<close>, if there is one.
\<close>

record app =
  home :: home_state
  room :: "room_content option"

definition reconcile :: "app \<Rightarrow> app" where
  "reconcile a =
     (case render (home a) of
        VoiceAssistantView \<Rightarrow>
          (case room a of None \<Rightarrow> a\<lparr>room := Some room_initial\<rparr> | Some r \<Rightarrow> a)
      | StartView e \<Rightarrow> a\<lparr>room := None\<rparr>)"

definition app_initial :: app where
  "app_initial = \<lparr>home = \<lparr>shouldConnect = False, error = None\<rparr>, room = None\<rparr>"

datatype app_event =
    PressConnect
  | PressDisconnect
  | PressClear
  | AudioFailed
  | WelcomeEffect stamp
  | ParticipantsEffect "(Participant \<times> stamp) list"
  | RoomEmits room_event stamp

text \<open>An event addressed to \<^verbatim>\<open>RoomContent\<close> is lost when the component is not mounted.\<close>

definition on_room :: "(room_content \<Rightarrow> room_content) \<Rightarrow> app \<Rightarrow> app" where
  "on_room f a = (case room a of None \<Rightarrow> a | Some r \<Rightarrow> a\<lparr>room := Some (f r)\<rparr>)"

text \<open>The state updates of an event, with the choice \<^verbatim>\<open>HomeScreen\<close> then makes between its
  two views.\<close>

fun app_update ::
  "string option \<Rightarrow> string option \<Rightarrow> (payload \<Rightarrow> js_error + jsval) \<Rightarrow> app_event \<Rightarrow> app \<Rightarrow> app"
where
  "app_update url jwt parse PressConnect a = reconcile (a\<lparr>home := connectToRoom url jwt (home a)\<rparr>)"
| "app_update url jwt parse PressDisconnect a = reconcile (a\<lparr>home := disconnect (home a)\<rparr>)"
| "app_update url jwt parse AudioFailed a = reconcile (a\<lparr>home := initAudio_failed (home a)\<rparr>)"
| "app_update url jwt parse PressClear a = on_room clearTranscripts a"
| "app_update url jwt parse (WelcomeEffect st) a = on_room (welcomeEffect st) a"
| "app_update url jwt parse (ParticipantsEffect ps) a = on_room (\<lambda>r. snd (participantsEffect ps r)) a"
| "app_update url jwt parse (RoomEmits ev st) a = on_room (\<lambda>r. snd (room_emit parse st ev r)) a"

subsection \<open>Rendering the transcript\<close>

text \<open>
  \<^verbatim>\<open>RoomContent\<close> renders each entry with \<^verbatim>\<open>{message.text}\<close> as the child of a text
  element, outside every \<^verbatim>\<open>try\<close>. React takes a string or a number as a child, renders
  nothing for \<^verbatim>\<open>null\<close>, \<^verbatim>\<open>undefined\<close> and the booleans, descends into an array, and
  throws on any other object. The speaker, the time and the key of an entry are always
  strings.
\<close>

fun react_child :: "jsval \<Rightarrow> bool" where
  "react_child (JObject kvs) = False"
| "react_child (JArray xs) = list_all react_child xs"
| "react_child v = True"

definition room_renders :: "room_content \<Rightarrow> bool" where
  "room_renders r = list_all (\<lambda>m. react_child (text_msg m)) (transcripts r)"

text \<open>
  No component of the file is an error boundary: an exception thrown while rendering
  unmounts the whole tree, \<^verbatim>\<open>HomeScreen\<close> included, and the state cells of both
  components are lost. Nothing is rendered from then on and no event reaches the code.
\<close>

datatype tree = Mounted app | TornDown

text \<open>
  React renders again when an event has changed a state cell; an event that changed
  none leaves the tree as it is. Rendering the start screen, or a room that has just
  been mounted, cannot throw; rendering a mounted \<^verbatim>\<open>RoomContent\<close> throws when one of its
  entries cannot be a child.
\<close>

definition commit :: "app \<Rightarrow> app \<Rightarrow> tree" where
  "commit a a' =
     (if a' = a then Mounted a
      else case room a' of
             None \<Rightarrow> Mounted a'
           | Some r \<Rightarrow> if room_renders r then Mounted a' else TornDown)"

fun app_step ::
  "string option \<Rightarrow> string option \<Rightarrow> (payload \<Rightarrow> js_error + jsval) \<Rightarrow> app_event \<Rightarrow> tree \<Rightarrow> tree"
where
  "app_step url jwt parse ev TornDown = TornDown"
| "app_step url jwt parse ev (Mounted a) = commit a (app_update url jwt parse ev a)"

declare app_step.simps [simp del]

text \<open>What is left to observe of a tree: the state of each component while it is mounted.\<close>

definition home_of :: "tree \<Rightarrow> home_state option" where
  "home_of t = (case t of TornDown \<Rightarrow> None | Mounted a \<Rightarrow> Some (home a))"

definition room_of :: "tree \<Rightarrow> room_content option" where
  "room_of t = (case t of TornDown \<Rightarrow> None | Mounted a \<Rightarrow> room a)"

text \<open>The transcript the user can see: none while \<^verbatim>\<open>RoomContent\<close> is not mounted.\<close>

definition transcript_shown :: "tree \<Rightarrow> TranscriptMessage list option" where
  "transcript_shown t = map_option transcripts (room_of t)"

subsection \<open>Well-formed UTF-8\<close>

text \<open>
  The payloads the specification calls valid UTF-8, after RFC 3629: a byte below
  \<open>0x80\<close>, or a lead byte followed by the continuation bytes it announces, with the
  overlong forms, the surrogates and the code points above \<open>U+10FFFF\<close> excluded. The
  code never tests this: \<^verbatim>\<open>new TextDecoder()\<close> is the decoder that replaces an
  ill-formed byte by \<open>U+FFFD\<close> instead of throwing. A string of the model holds the
  UTF-8 bytes of its text, so \<open>U+FFFD\<close> is the three characters \<open>0xEF 0xBF 0xBD\<close>.
\<close>

definition in_range :: "8 word \<Rightarrow> 8 word \<Rightarrow> 8 word \<Rightarrow> bool" where
  "in_range lo hi b = (lo \<le> b \<and> b \<le> hi)"

fun valid_utf8 :: "payload \<Rightarrow> bool" where
  "valid_utf8 [] = True"
| "valid_utf8 (b # bs) =
     (if b \<le> 0x7F then valid_utf8 bs
      else if in_range 0xC2 0xDF b then
        (case bs of
           c # cs \<Rightarrow> in_range 0x80 0xBF c \<and> valid_utf8 cs
         | _ \<Rightarrow> False)
      else if in_range 0xE0 0xEF b then
        (case bs of
           c # d # ds \<Rightarrow>
             in_range (if b = 0xE0 then 0xA0 else 0x80) (if b = 0xED then 0x9F else 0xBF) c \<and>
             in_range 0x80 0xBF d \<and> valid_utf8 ds
         | _ \<Rightarrow> False)
      else if in_range 0xF0 0xF4 b then
        (case bs of
           c # d # e # es \<Rightarrow>
             in_range (if b = 0xF0 then 0x90 else 0x80) (if b = 0xF4 then 0x8F else 0xBF) c \<and>
             in_range 0x80 0xBF d \<and> in_range 0x80 0xBF e \<and> valid_utf8 es
         | _ \<Rightarrow> False)
      else False)"

text \<open>The errors written to the console by \<^verbatim>\<open>console.error\<close>.\<close>

fun console_errors :: "console_entry list \<Rightarrow> js_error list" where
  "console_errors [] = []"
| "console_errors (ConsoleError msg e # es) = e # console_errors es"
| "console_errors (ConsoleLog args # es) = console_errors es"

text \<open>The entry built by one recorded call, and by the announcement of one participant.\<close>

definition call_message :: "append_call \<Rightarrow> TranscriptMessage" where
  "call_message c = newMessage (call_stamp c) (call_text c) (call_participant c) (call_isUser c)"

definition announcement :: "Participant \<times> stamp \<Rightarrow> TranscriptMessage" where
  "announcement ps =
     newMessage (snd ps) (JString (''Assistant '' @ identity (fst ps) @ '' is in the room''))
       ''System'' False"

section \<open>Basic facts\<close>

lemma transcripts_append_all:
  "transcripts (append_all cs r) = transcripts r @ map call_message cs"
  by (induction cs arbitrary: r) (simp_all add: addTranscriptMessage_def call_message_def)

lemma isInitialized_append_all: "isInitialized (append_all cs r) = isInitialized r"
  by (induction cs arbitrary: r) (simp_all add: addTranscriptMessage_def)

lemma transcripts_announce:
  "transcripts (announce ps r) = transcripts r @ map announcement ps"
  by (induction ps r rule: announce.induct)
     (simp_all add: addTranscriptMessage_def announcement_def)

lemma isInitialized_announce: "isInitialized (announce ps r) = isInitialized r"
  by (induction ps r rule: announce.induct) (simp_all add: addTranscriptMessage_def)

lemma falsy_simps: "falsy None" "falsy (Some s) \<longleftrightarrow> s = []"
  by (simp_all add: falsy_def)

section \<open>Facts about the tree\<close>

lemma commit_renders:
  "(case room a' of None \<Rightarrow> True | Some r \<Rightarrow> room_renders r) \<Longrightarrow> commit a a' = Mounted a'"
  by (auto simp: commit_def split: option.splits)

lemma room_of_commit: "room_of (commit a a') = Some r' \<Longrightarrow> room a' = Some r'"
  by (auto simp: commit_def room_of_def split: if_splits option.splits)

lemma room_of_step:
  "room_of (app_step url jwt parse ev (Mounted a)) = Some r' \<Longrightarrow>
     room (app_update url jwt parse ev a) = Some r'"
  by (simp add: app_step.simps room_of_commit)

lemma room_renders_initial: "room_renders room_initial"
  by (simp add: room_renders_def room_initial_def)

lemma app_update_isInitialized:
  assumes "room a = Some r" and "isInitialized r"
    and "room (app_update url jwt parse ev a) = Some r'"
  shows "isInitialized r'"
proof (cases ev)
  case PressConnect
  with assms show ?thesis
    by (auto simp: reconcile_def split: screen.splits)
next
  case PressDisconnect
  with assms show ?thesis
    by (auto simp: reconcile_def split: screen.splits)
next
  case PressClear
  with assms show ?thesis
    by (auto simp: on_room_def clearTranscripts_def)
next
  case AudioFailed
  with assms show ?thesis
    by (auto simp: reconcile_def split: screen.splits)
next
  case (WelcomeEffect s)
  with assms show ?thesis
    by (auto simp: on_room_def welcomeEffect_def)
next
  case (ParticipantsEffect ps)
  with assms show ?thesis
    by (auto simp: on_room_def participantsEffect_def isInitialized_announce)
next
  case (RoomEmits e s)
  with assms show ?thesis
    by (auto simp: on_room_def room_emit_def handleDataReceived_def addTranscriptMessage_def
          Let_def split: room_event.splits sum.splits if_splits)
qed

lemma app_update_keeps_entries:
  assumes "room a = Some r" and "room (app_update url jwt parse ev a) = Some r'"
    and "ev \<noteq> PressClear"
  shows "take (length (transcripts r)) (transcripts r') = transcripts r"
proof (cases ev)
  case PressConnect
  with assms show ?thesis
    by (auto simp: reconcile_def split: screen.splits)
next
  case PressDisconnect
  with assms show ?thesis
    by (auto simp: reconcile_def split: screen.splits)
next
  case PressClear
  with assms show ?thesis by simp
next
  case AudioFailed
  with assms show ?thesis
    by (auto simp: reconcile_def split: screen.splits)
next
  case (WelcomeEffect s)
  with assms show ?thesis
    by (auto simp: on_room_def welcomeEffect_def addTranscriptMessage_def)
next
  case (ParticipantsEffect ps)
  with assms show ?thesis
    by (auto simp: on_room_def participantsEffect_def transcripts_announce)
next
  case (RoomEmits e s)
  with assms show ?thesis
    by (auto simp: on_room_def room_emit_def handleDataReceived_def addTranscriptMessage_def
          Let_def split: room_event.splits sum.splits if_splits)
qed


lemma disconnect_step:
  "app_step url jwt parse PressDisconnect (Mounted a) =
     Mounted (a\<lparr>home := (home a)\<lparr>shouldConnect := False\<rparr>, room := None\<rparr>)"
  by (simp add: app_step.simps commit_renders disconnect_def render_def reconcile_def)

lemma connect_step:
  assumes "\<not> falsy url" and "\<not> falsy jwt" and "room a = None"
  shows "app_step url jwt parse PressConnect (Mounted a) =
     Mounted \<lparr>home = (home a)\<lparr>error := None, shouldConnect := True\<rparr>,
              room = Some room_initial\<rparr>"
  using assms
  by (simp add: app_step.simps connectToRoom_def render_def reconcile_def falsy_simps
        commit_renders room_renders_initial)

text \<open>
  The render step at work: a transcription whose \<^verbatim>\<open>text\<close> is an object is stored by the
  handler and cannot be rendered, so the tree is torn down.
\<close>

lemma object_text_tears_down:
  "app_step url jwt
     (\<lambda>b. Inr (JObject [(''type'', JString ''transcription''), (''text'', JObject [])]))
     (RoomEmits (DataReceived bytes None) st)
     (Mounted \<lparr>home = \<lparr>shouldConnect = True, error = None\<rparr>, room = Some room_initial\<rparr>) =
   TornDown"
  by (simp add: app_step.simps commit_def on_room_def room_emit_def handleDataReceived_def
        addTranscriptMessage_def newMessage_def room_renders_def room_initial_def)

lemma commit_same: "commit a a = Mounted a"
  by (simp add: commit_def)


lemma data_step_unchanged:
  assumes "\<And>r. room a = Some r \<Longrightarrow> snd (handleDataReceived parse st bytes sender r) = r"
  shows "app_step url jwt parse (RoomEmits (DataReceived bytes sender) st) (Mounted a) = Mounted a"
proof (cases "room a")
  case None
  then show ?thesis
    by (simp add: app_step.simps on_room_def commit_same)
next
  case (Some r)
  with assms [of r] have "app_update url jwt parse (RoomEmits (DataReceived bytes sender) st) a = a"
    by (simp add: on_room_def room_emit_def)
  then show ?thesis
    by (simp add: app_step.simps commit_same)
qed



section \<open>Validation of the credentials\<close>

text \<open>
  C1. Whatever the state, \<^verbatim>\<open>connectToRoom\<close> with a missing or empty server URL only sets
  the error to the missing-URL message, and the start screen is shown with it; with a
  URL but a missing or empty token it only sets the error to the missing-token message,
  and the start screen is shown with it; with both present it clears the error, sets
  \<^verbatim>\<open>shouldConnect\<close>, and the room (which connects at once) is rendered. From a state
  where \<^verbatim>\<open>RoomContent\<close> is not mounted, the failing cases leave it unmounted and the
  successful case mounts it in its initial state.
\<close>

theorem connectToRoom_validates:
  "(falsy url \<longrightarrow>
      connectToRoom url jwt h = h\<lparr>error := Some ''LIVEKIT_URL is not configured''\<rparr> \<and>
      render (connectToRoom url jwt h) = StartView (Some ''LIVEKIT_URL is not configured'') \<and>
      (room a = None \<longrightarrow>
         app_step url jwt parse PressConnect (Mounted a) =
           Mounted (a\<lparr>home := (home a)\<lparr>error := Some ''LIVEKIT_URL is not configured''\<rparr>\<rparr>))) \<and>
   (\<not> falsy url \<and> falsy jwt \<longrightarrow>
      connectToRoom url jwt h =
        h\<lparr>error := Some ''LIVEKIT_JWT is not configured. Please add your JWT token to the .env file or app.json extra config.''\<rparr> \<and>
      render (connectToRoom url jwt h) =
        StartView (Some ''LIVEKIT_JWT is not configured. Please add your JWT token to the .env file or app.json extra config.'') \<and>
      (room a = None \<longrightarrow>
         app_step url jwt parse PressConnect (Mounted a) =
           Mounted (a\<lparr>home := (home a)\<lparr>error := Some ''LIVEKIT_JWT is not configured. Please add your JWT token to the .env file or app.json extra config.''\<rparr>\<rparr>))) \<and>
   (\<not> falsy url \<and> \<not> falsy jwt \<longrightarrow>
      connectToRoom url jwt h = h\<lparr>error := None, shouldConnect := True\<rparr> \<and>
      render (connectToRoom url jwt h) = VoiceAssistantView \<and>
      (room a = None \<longrightarrow>
         app_step url jwt parse PressConnect (Mounted a) =
           Mounted \<lparr>home = (home a)\<lparr>error := None, shouldConnect := True\<rparr>,
                    room = Some room_initial\<rparr>))"
  by (simp add: app_step.simps connectToRoom_def render_def reconcile_def falsy_simps
        commit_renders room_renders_initial)

theorem connectToRoom_validates_witness:
  "connectToRoom (Some []) (Some ''abc'') \<lparr>shouldConnect = False, error = None\<rparr> =
     \<lparr>shouldConnect = False, error = Some ''LIVEKIT_URL is not configured''\<rparr> \<and>
   render (connectToRoom (Some ''wss://x'') None \<lparr>shouldConnect = False, error = None\<rparr>) =
     StartView (Some ''LIVEKIT_JWT is not configured. Please add your JWT token to the .env file or app.json extra config.'') \<and>
   app_step (Some ''wss://x'') (Some ''abc'') (\<lambda>b. Inl SyntaxError) PressConnect
       (Mounted app_initial) =
     Mounted \<lparr>home = \<lparr>shouldConnect = True, error = None\<rparr>, room = Some room_initial\<rparr>"
  using
    connectToRoom_validates [of "Some []" "Some ''abc''" "\<lparr>shouldConnect = False, error = None\<rparr>"
      app_initial "\<lambda>b. Inl SyntaxError"]
    connectToRoom_validates [of "Some ''wss://x''" None "\<lparr>shouldConnect = False, error = None\<rparr>"
      app_initial "\<lambda>b. Inl SyntaxError"]
    connectToRoom_validates [of "Some ''wss://x''" "Some ''abc''" "\<lparr>shouldConnect = False, error = None\<rparr>"
      app_initial "\<lambda>b. Inl SyntaxError"]
  by (simp add: falsy_simps app_initial_def connectToRoom_def render_def reconcile_def)

lemma digits_of_digit: "n < 10 \<Longrightarrow> digits_of n = [''0123456789'' ! n]"
  by (subst digits_of.simps) simp

section \<open>The transcript as a log\<close>

text \<open>
  C8. Calling \<^verbatim>\<open>addTranscriptMessage\<close> N times adds exactly N entries: the entries that
  were there before are unchanged and come first, and the i-th new entry is the one
  built by the i-th call. \<^verbatim>\<open>clearTranscripts\<close> leaves the empty list, whatever was
  appended before.
\<close>

theorem transcript_append_only:
  "length (transcripts (append_all cs r)) = length (transcripts r) + length cs \<and>
   take (length (transcripts r)) (transcripts (append_all cs r)) = transcripts r \<and>
   (\<forall>i<length cs.
      transcripts (append_all cs r) ! (length (transcripts r) + i) = call_message (cs ! i)) \<and>
   transcripts (append_all cs room_initial) = map call_message cs \<and>
   transcripts (clearTranscripts (append_all cs r)) = []"
  by (simp add: transcripts_append_all nth_append room_initial_def clearTranscripts_def)

theorem transcript_append_only_witness:
  "transcripts
     (append_all
        [\<lparr>call_stamp = \<lparr>date_now = 7, math_random = ''0.5'', new_date = 7\<rparr>,
          call_text = JString ''a'', call_participant = ''System'', call_isUser = False\<rparr>,
         \<lparr>call_stamp = \<lparr>date_now = 9, math_random = ''0.25'', new_date = 9\<rparr>,
          call_text = JString ''b'', call_participant = ''agent'', call_isUser = False\<rparr>]
        room_initial) ! 1 =
   \<lparr>id_msg = ''90.25'', text_msg = JString ''b'', participant = ''agent'', timestamp = 9,
    isUser = False\<rparr>"
  using transcript_append_only
    [of "[\<lparr>call_stamp = \<lparr>date_now = 7, math_random = ''0.5'', new_date = 7\<rparr>,
          call_text = JString ''a'', call_participant = ''System'', call_isUser = False\<rparr>,
         \<lparr>call_stamp = \<lparr>date_now = 9, math_random = ''0.25'', new_date = 9\<rparr>,
          call_text = JString ''b'', call_participant = ''agent'', call_isUser = False\<rparr>]"
        room_initial]
  by (simp add: room_initial_def call_message_def newMessage_def number_toString_def
        digits_of_digit)

section \<open>Announcing the participants\<close>

text \<open>
  C9. Each time the participants effect runs with a non-empty list, one entry is
  appended for each participant of the list, in order: its text names the identity of
  the participant, its speaker is \<open>System\<close>, it is not a message of the user, and its
  time is the clock reading of that call. With an empty list nothing is appended. A
  second run appends its own entries after those of the first, also when the second
  list holds the same participants.
\<close>

theorem participants_announced_on_each_change:
  "(ps \<noteq> [] \<longrightarrow>
      transcripts (snd (participantsEffect ps r)) = transcripts r @ map announcement ps \<and>
      length (transcripts (snd (participantsEffect ps r))) = length (transcripts r) + length ps \<and>
      isInitialized (snd (participantsEffect ps r)) = isInitialized r \<and>
      (\<forall>i<length ps.
         text_msg (transcripts (snd (participantsEffect ps r)) ! (length (transcripts r) + i)) =
           JString (''Assistant '' @ identity (fst (ps ! i)) @ '' is in the room'') \<and>
         participant (transcripts (snd (participantsEffect ps r)) ! (length (transcripts r) + i)) =
           ''System'' \<and>
         \<not> isUser (transcripts (snd (participantsEffect ps r)) ! (length (transcripts r) + i)) \<and>
         timestamp (transcripts (snd (participantsEffect ps r)) ! (length (transcripts r) + i)) =
           new_date (snd (ps ! i))) \<and>
      (qs \<noteq> [] \<longrightarrow>
         transcripts (snd (participantsEffect qs (snd (participantsEffect ps r)))) =
           transcripts r @ map announcement ps @ map announcement qs)) \<and>
   snd (participantsEffect [] r) = r"
  by (simp add: participantsEffect_def transcripts_announce isInitialized_announce nth_append
        announcement_def newMessage_def)

theorem participants_announced_on_each_change_witness:
  "map text_msg
     (transcripts
        (snd (participantsEffect
                [(\<lparr>identity = ''agent-1''\<rparr>, \<lparr>date_now = 8, math_random = ''0.5'', new_date = 8\<rparr>)]
                (snd (participantsEffect
                        [(\<lparr>identity = ''agent-1''\<rparr>,
                          \<lparr>date_now = 5, math_random = ''0.5'', new_date = 5\<rparr>)]
                        room_initial))))) =
   [JString ''Assistant agent-1 is in the room'', JString ''Assistant agent-1 is in the room'']"
  using participants_announced_on_each_change
    [of "[(\<lparr>identity = ''agent-1''\<rparr>, \<lparr>date_now = 5, math_random = ''0.5'', new_date = 5\<rparr>)]"
        room_initial
        "[(\<lparr>identity = ''agent-1''\<rparr>, \<lparr>date_now = 8, math_random = ''0.5'', new_date = 8\<rparr>)]"]
  by (simp add: room_initial_def announcement_def newMessage_def)

section \<open>Transcription messages\<close>

text \<open>
  C10. When the payload parses to an object whose \<^verbatim>\<open>type\<close> is the string
  \<open>transcription\<close>, one entry is appended whatever the \<^verbatim>\<open>text\<close> property is: the entry
  carries the value of \<^verbatim>\<open>data.text\<close> as it is, and \<^verbatim>\<open>undefined\<close> when the object has
  no such property. No error is written to the console.
\<close>

theorem transcription_text_not_validated:
  assumes "parse bytes = Inr (JObject kvs)"
    and "map_of kvs ''type'' = Some (JString ''transcription'')"
  shows "length (transcripts (snd (handleDataReceived parse st bytes sender r))) =
           Suc (length (transcripts r)) \<and>
         take (length (transcripts r)) (transcripts (snd (handleDataReceived parse st bytes sender r))) =
           transcripts r \<and>
         text_msg (last (transcripts (snd (handleDataReceived parse st bytes sender r)))) =
           (case map_of kvs ''text'' of None \<Rightarrow> JUndefined | Some v \<Rightarrow> v) \<and>
         console_errors (fst (handleDataReceived parse st bytes sender r)) = []"
  using assms by (simp add: handleDataReceived_def addTranscriptMessage_def newMessage_def)

theorem transcription_text_not_validated_witness:
  "transcripts
     (snd (handleDataReceived (\<lambda>b. Inr (JObject [(''type'', JString ''transcription'')]))
             \<lparr>date_now = 3, math_random = ''0.75'', new_date = 4\<rparr> [] None room_initial)) =
   [\<lparr>id_msg = ''30.75'', text_msg = JUndefined, participant = ''User'', timestamp = 4,
     isUser = True\<rparr>]"
  using transcription_text_not_validated
    [of "\<lambda>b. Inr (JObject [(''type'', JString ''transcription'')])" "[]"
        "[(''type'', JString ''transcription'')]"
        "\<lparr>date_now = 3, math_random = ''0.75'', new_date = 4\<rparr>" None room_initial]
  by (simp add: handleDataReceived_def addTranscriptMessage_def newMessage_def room_initial_def
        number_toString_def digits_of_digit)

section \<open>Timestamps\<close>

text \<open>
  C2 as the specification states it: the timestamps of the transcript never decrease,
  even if the clock is set back between two calls. The code stores \<^verbatim>\<open>new Date()\<close> as it
  is: with the clock at 10 for the first call and at 5 for the second, the second entry
  is older than the first.
\<close>

theorem timestamps_not_clamped_counterexample:
  "\<not> sorted
       (map timestamp
          (transcripts
             (append_all
                [\<lparr>call_stamp = \<lparr>date_now = 10, math_random = ''0.5'', new_date = 10\<rparr>,
                  call_text = JString ''a'', call_participant = ''System'', call_isUser = False\<rparr>,
                 \<lparr>call_stamp = \<lparr>date_now = 5, math_random = ''0.5'', new_date = 5\<rparr>,
                  call_text = JString ''b'', call_participant = ''System'', call_isUser = False\<rparr>]
                room_initial)))"
  by (simp add: room_initial_def addTranscriptMessage_def newMessage_def)

text \<open>
  C2, amended. The timestamps of the transcript are the clock readings of the calls, in
  call order, after the timestamps that were there before. So they never decrease
  exactly when the clock readings never decrease and do not fall below the timestamps
  already in the transcript; nothing is clamped.
\<close>

theorem timestamps_follow_clock:
  "map timestamp (transcripts (append_all cs r)) =
     map timestamp (transcripts r) @ map (\<lambda>c. new_date (call_stamp c)) cs \<and>
   (sorted (map timestamp (transcripts (append_all cs r))) \<longleftrightarrow>
      sorted (map timestamp (transcripts r) @ map (\<lambda>c. new_date (call_stamp c)) cs)) \<and>
   (sorted (map (\<lambda>c. new_date (call_stamp c)) cs) \<longrightarrow>
      sorted (map timestamp (transcripts (append_all cs room_initial))))"
  by (simp add: transcripts_append_all call_message_def newMessage_def room_initial_def comp_def)

theorem timestamps_follow_clock_witness:
  "sorted
     (map timestamp
        (transcripts
           (append_all
              [\<lparr>call_stamp = \<lparr>date_now = 5, math_random = ''0.5'', new_date = 5\<rparr>,
                call_text = JString ''a'', call_participant = ''System'', call_isUser = False\<rparr>,
               \<lparr>call_stamp = \<lparr>date_now = 5, math_random = ''0.25'', new_date = 5\<rparr>,
                call_text = JString ''b'', call_participant = ''System'', call_isUser = False\<rparr>,
               \<lparr>call_stamp = \<lparr>date_now = 10, math_random = ''0.5'', new_date = 10\<rparr>,
                call_text = JString ''c'', call_participant = ''System'', call_isUser = False\<rparr>]
              room_initial)))"
  using timestamps_follow_clock
    [of "[\<lparr>call_stamp = \<lparr>date_now = 5, math_random = ''0.5'', new_date = 5\<rparr>,
                call_text = JString ''a'', call_participant = ''System'', call_isUser = False\<rparr>,
               \<lparr>call_stamp = \<lparr>date_now = 5, math_random = ''0.25'', new_date = 5\<rparr>,
                call_text = JString ''b'', call_participant = ''System'', call_isUser = False\<rparr>,
               \<lparr>call_stamp = \<lparr>date_now = 10, math_random = ''0.5'', new_date = 10\<rparr>,
                call_text = JString ''c'', call_participant = ''System'', call_isUser = False\<rparr>]"
        room_initial]
  by (simp add: room_initial_def)

section \<open>The welcome message\<close>

text \<open>
  C3 as the specification states it: the entry appended on connection has the text
  \<open>Connected to Assistant! Start speaking...\<close>. The text in the code is another one.
\<close>

theorem welcome_text_counterexample:
  "text_msg
     (hd (transcripts
            (welcomeEffect \<lparr>date_now = 1, math_random = ''0.5'', new_date = 1\<rparr> room_initial))) \<noteq>
   JString ''Connected to Assistant! Start speaking...''"
  by (simp add: welcomeEffect_def room_initial_def addTranscriptMessage_def newMessage_def)

text \<open>
  C3, amended. The first run of the welcome effect in a freshly mounted
  \<^verbatim>\<open>RoomContent\<close> appends exactly one entry, with text
  \<open>Connected to FlowShield Assistant! Start speaking...\<close>, speaker \<open>System\<close>, not a
  message of the user, and sets \<^verbatim>\<open>isInitialized\<close>. Once \<^verbatim>\<open>isInitialized\<close> is set, the
  effect changes nothing, and no event that leaves \<^verbatim>\<open>RoomContent\<close> mounted resets it:
  the entry is appended once for each mount.
\<close>

theorem welcome_once_per_mount:
  "welcomeEffect st room_initial =
     \<lparr>transcripts =
        [newMessage st (JString ''Connected to FlowShield Assistant! Start speaking...'')
           ''System'' False],
      isInitialized = True\<rparr> \<and>
   (isInitialized r \<longrightarrow> welcomeEffect st' r = r) \<and>
   (room a = Some r \<and> isInitialized r \<and>
    room_of (app_step url jwt parse ev (Mounted a)) = Some r' \<longrightarrow>
      isInitialized r')"
proof (intro conjI impI)
  show "welcomeEffect st room_initial =
     \<lparr>transcripts =
        [newMessage st (JString ''Connected to FlowShield Assistant! Start speaking...'')
           ''System'' False],
      isInitialized = True\<rparr>"
    by (simp add: welcomeEffect_def room_initial_def addTranscriptMessage_def)
next
  assume "isInitialized r"
  then show "welcomeEffect st' r = r"
    by (simp add: welcomeEffect_def)
next
  assume h: "room a = Some r \<and> isInitialized r \<and>
    room_of (app_step url jwt parse ev (Mounted a)) = Some r'"
  then have "room (app_update url jwt parse ev a) = Some r'"
    by (simp add: room_of_step)
  with h show "isInitialized r'"
    by (blast intro: app_update_isInitialized)
qed

theorem welcome_once_per_mount_witness:
  "welcomeEffect \<lparr>date_now = 2, math_random = ''0.5'', new_date = 2\<rparr>
     (welcomeEffect \<lparr>date_now = 1, math_random = ''0.5'', new_date = 1\<rparr> room_initial) =
   welcomeEffect \<lparr>date_now = 1, math_random = ''0.5'', new_date = 1\<rparr> room_initial \<and>
   isInitialized (clearTranscripts
     (welcomeEffect \<lparr>date_now = 1, math_random = ''0.5'', new_date = 1\<rparr> room_initial))"
  using welcome_once_per_mount
    [of "\<lparr>date_now = 1, math_random = ''0.5'', new_date = 1\<rparr>"
        "welcomeEffect \<lparr>date_now = 1, math_random = ''0.5'', new_date = 1\<rparr> room_initial"
        "\<lparr>date_now = 2, math_random = ''0.5'', new_date = 2\<rparr>"
        "\<lparr>home = \<lparr>shouldConnect = True, error = None\<rparr>,
          room = Some (welcomeEffect \<lparr>date_now = 1, math_random = ''0.5'', new_date = 1\<rparr>
                         room_initial)\<rparr>"
        "Some ''wss://x''" "Some ''abc''" "\<lambda>b. Inl SyntaxError" PressClear
        "clearTranscripts
           (welcomeEffect \<lparr>date_now = 1, math_random = ''0.5'', new_date = 1\<rparr> room_initial)"]
  by (simp add: on_room_def clearTranscripts_def welcomeEffect_def room_initial_def
        addTranscriptMessage_def app_step.simps commit_def room_of_def room_renders_def)

section \<open>Payloads that are not transcriptions\<close>

text \<open>
  C4 as the specification states it: a payload that is a JSON array is an error
  (\<open>MalformedPayload\<close>), so is an object with no \<^verbatim>\<open>type\<close> (\<open>MissingType\<close>), and so is a
  payload that is not valid UTF-8, none of them changing the transcript. In the code
  the array \<^verbatim>\<open>[]\<close> and the object \<^verbatim>\<open>{}\<close> raise and log no error: they take the normal
  path of \<^verbatim>\<open>try\<close> and are ignored like a message of an unknown type. And the payload
  \<^verbatim>\<open>{"type":"transcription","text":"?"}\<close>, where \<^verbatim>\<open>?\<close> is the single byte \<open>0xFF\<close>, is not
  valid UTF-8, yet the decoder turns the byte into \<open>U+FFFD\<close>, the text parses, and the
  entry is appended with no error.
\<close>

theorem payload_failure_cases_counterexample:
  "console_errors
     (fst (handleDataReceived (\<lambda>b. Inr (JArray []))
             \<lparr>date_now = 1, math_random = ''0.5'', new_date = 1\<rparr> [0x5B, 0x5D] None
             room_initial)) = [] \<and>
   console_errors
     (fst (handleDataReceived (\<lambda>b. Inr (JObject []))
             \<lparr>date_now = 1, math_random = ''0.5'', new_date = 1\<rparr> [0x7B, 0x7D] None
             room_initial)) = [] \<and>
   \<not> valid_utf8
       [0x7B, 0x22, 0x74, 0x79, 0x70, 0x65, 0x22, 0x3A, 0x22, 0x74, 0x72, 0x61, 0x6E, 0x73,
        0x63, 0x72, 0x69, 0x70, 0x74, 0x69, 0x6F, 0x6E, 0x22, 0x2C, 0x22, 0x74, 0x65, 0x78,
        0x74, 0x22, 0x3A, 0x22, 0xFF, 0x22, 0x7D] \<and>
   handleDataReceived
     (\<lambda>b. Inr (JObject [(''type'', JString ''transcription''),
                         (''text'', JString [CHR 0xEF, CHR 0xBF, CHR 0xBD])]))
     \<lparr>date_now = 1, math_random = ''0.5'', new_date = 1\<rparr>
     [0x7B, 0x22, 0x74, 0x79, 0x70, 0x65, 0x22, 0x3A, 0x22, 0x74, 0x72, 0x61, 0x6E, 0x73,
      0x63, 0x72, 0x69, 0x70, 0x74, 0x69, 0x6F, 0x6E, 0x22, 0x2C, 0x22, 0x74, 0x65, 0x78,
      0x74, 0x22, 0x3A, 0x22, 0xFF, 0x22, 0x7D]
     None room_initial =
   ([ConsoleLog
       [JString ''Data received:'',
        JObject [(''type'', JString ''transcription''),
                 (''text'', JString [CHR 0xEF, CHR 0xBF, CHR 0xBD])]]],
    \<lparr>transcripts =
       [\<lparr>id_msg = ''10.5'', text_msg = JString [CHR 0xEF, CHR 0xBF, CHR 0xBD],
         participant = ''User'', timestamp = 1, isUser = True\<rparr>],
     isInitialized = False\<rparr>)"
  by (simp add: handleDataReceived_def in_range_def addTranscriptMessage_def newMessage_def
        room_initial_def number_toString_def digits_of_digit)

text \<open>
  C4, amended. The code has no \<open>MalformedPayload\<close> and \<open>MissingType\<close> results. When
  decoding and parsing the payload throws, the exception is caught and written to the
  console, and the state of \<^verbatim>\<open>RoomContent\<close> is unchanged; the same holds for the payload
  \<^verbatim>\<open>null\<close>, whose \<^verbatim>\<open>type\<close> cannot be read. A payload that parses to an array, or to an
  object with no \<^verbatim>\<open>type\<close>, is no error: it is logged as received and ignored, the state
  unchanged. In each of these four cases the whole tree is as it was before the
  message: same \<^verbatim>\<open>shouldConnect\<close>, same \<^verbatim>\<open>error\<close>, \<^verbatim>\<open>RoomContent\<close> mounted with the same
  transcript. Whether the payload is valid UTF-8 is never tested: a payload that is
  not, but which the platform decodes and parses to an object of type
  \<open>transcription\<close>, has its entry appended, with no error.
\<close>

theorem malformed_payload_is_swallowed:
  "(parse bytes = Inl e \<longrightarrow>
      handleDataReceived parse st bytes sender r =
        ([ConsoleError ''Error parsing data message:'' e], r)) \<and>
   (parse bytes = Inr JNull \<longrightarrow>
      handleDataReceived parse st bytes sender r =
        ([ConsoleLog [JString ''Data received:'', JNull],
          ConsoleError ''Error parsing data message:'' TypeError], r)) \<and>
   (parse bytes = Inr (JArray xs) \<longrightarrow>
      handleDataReceived parse st bytes sender r =
        ([ConsoleLog [JString ''Data received:'', JArray xs]], r)) \<and>
   (parse bytes = Inr (JObject kvs) \<and> map_of kvs ''type'' = None \<longrightarrow>
      handleDataReceived parse st bytes sender r =
        ([ConsoleLog [JString ''Data received:'', JObject kvs]], r)) \<and>
   (parse bytes = Inl e \<or> parse bytes = Inr JNull \<or> parse bytes = Inr (JArray xs) \<or>
    parse bytes = Inr (JObject kvs) \<and> map_of kvs ''type'' = None \<longrightarrow>
      app_step url jwt parse (RoomEmits (DataReceived bytes sender) st) (Mounted a) =
        Mounted a) \<and>
   (\<not> valid_utf8 bytes \<and> parse bytes = Inr (JObject kvs) \<and>
    map_of kvs ''type'' = Some (JString ''transcription'') \<longrightarrow>
      length (transcripts (snd (handleDataReceived parse st bytes sender r))) =
        Suc (length (transcripts r)) \<and>
      text_msg (last (transcripts (snd (handleDataReceived parse st bytes sender r)))) =
        (case map_of kvs ''text'' of None \<Rightarrow> JUndefined | Some v \<Rightarrow> v) \<and>
      console_errors (fst (handleDataReceived parse st bytes sender r)) = [])"
proof (intro conjI impI)
  assume "parse bytes = Inl e \<or> parse bytes = Inr JNull \<or> parse bytes = Inr (JArray xs) \<or>
    parse bytes = Inr (JObject kvs) \<and> map_of kvs ''type'' = None"
  then have "snd (handleDataReceived parse st bytes sender r') = r'" for r'
    by (auto simp: handleDataReceived_def)
  then show "app_step url jwt parse (RoomEmits (DataReceived bytes sender) st) (Mounted a) =
        Mounted a"
    by (simp add: data_step_unchanged)
qed (simp_all add: handleDataReceived_def addTranscriptMessage_def newMessage_def)

theorem malformed_payload_is_swallowed_witness:
  "handleDataReceived (\<lambda>b. Inl SyntaxError)
     \<lparr>date_now = 1, math_random = ''0.5'', new_date = 1\<rparr> [0x7B] None room_initial =
     ([ConsoleError ''Error parsing data message:'' SyntaxError], room_initial) \<and>
   handleDataReceived (\<lambda>b. Inr JNull)
     \<lparr>date_now = 1, math_random = ''0.5'', new_date = 1\<rparr> [0x6E, 0x75, 0x6C, 0x6C] None
     room_initial =
     ([ConsoleLog [JString ''Data received:'', JNull],
       ConsoleError ''Error parsing data message:'' TypeError], room_initial) \<and>
   handleDataReceived (\<lambda>b. Inr (JArray [JNull]))
     \<lparr>date_now = 1, math_random = ''0.5'', new_date = 1\<rparr>
     [0x5B, 0x6E, 0x75, 0x6C, 0x6C, 0x5D] None room_initial =
     ([ConsoleLog [JString ''Data received:'', JArray [JNull]]], room_initial) \<and>
   handleDataReceived (\<lambda>b. Inr (JObject []))
     \<lparr>date_now = 1, math_random = ''0.5'', new_date = 1\<rparr> [0x7B, 0x7D] None room_initial =
     ([ConsoleLog [JString ''Data received:'', JObject []]], room_initial) \<and>
   app_step (Some ''wss://x'') (Some ''abc'') (\<lambda>b. Inl SyntaxError)
     (RoomEmits (DataReceived [0x7B] None) \<lparr>date_now = 1, math_random = ''0.5'', new_date = 1\<rparr>)
     (Mounted
        \<lparr>home = \<lparr>shouldConnect = True, error = None\<rparr>,
         room = Some (welcomeEffect \<lparr>date_now = 1, math_random = ''0.5'', new_date = 1\<rparr>
                        room_initial)\<rparr>) =
   Mounted
     \<lparr>home = \<lparr>shouldConnect = True, error = None\<rparr>,
      room = Some (welcomeEffect \<lparr>date_now = 1, math_random = ''0.5'', new_date = 1\<rparr>
                     room_initial)\<rparr> \<and>
   length
     (transcripts
        (snd (handleDataReceived
                (\<lambda>b. Inr (JObject [(''type'', JString ''transcription''),
                                    (''text'', JString [CHR 0xEF, CHR 0xBF, CHR 0xBD])]))
                \<lparr>date_now = 1, math_random = ''0.5'', new_date = 1\<rparr>
                [0x7B, 0x22, 0x74, 0x79, 0x70, 0x65, 0x22, 0x3A, 0x22, 0x74, 0x72, 0x61, 0x6E,
                 0x73, 0x63, 0x72, 0x69, 0x70, 0x74, 0x69, 0x6F, 0x6E, 0x22, 0x2C, 0x22, 0x74,
                 0x65, 0x78, 0x74, 0x22, 0x3A, 0x22, 0xFF, 0x22, 0x7D]
                None room_initial))) = 1"
  using
    malformed_payload_is_swallowed
      [of "\<lambda>b. Inl SyntaxError" "[0x7B]" SyntaxError
          "\<lparr>date_now = 1, math_random = ''0.5'', new_date = 1\<rparr>" None room_initial _ _
          "Some ''wss://x''" "Some ''abc''"
          "\<lparr>home = \<lparr>shouldConnect = True, error = None\<rparr>,
            room = Some (welcomeEffect \<lparr>date_now = 1, math_random = ''0.5'', new_date = 1\<rparr>
                           room_initial)\<rparr>"]
    malformed_payload_is_swallowed
      [of "\<lambda>b. Inr JNull" "[0x6E, 0x75, 0x6C, 0x6C]" _
          "\<lparr>date_now = 1, math_random = ''0.5'', new_date = 1\<rparr>" None room_initial]
    malformed_payload_is_swallowed
      [of "\<lambda>b. Inr (JArray [JNull])" "[0x5B, 0x6E, 0x75, 0x6C, 0x6C, 0x5D]" _
          "\<lparr>date_now = 1, math_random = ''0.5'', new_date = 1\<rparr>" None room_initial "[JNull]"]
    malformed_payload_is_swallowed
      [of "\<lambda>b. Inr (JObject [])" "[0x7B, 0x7D]" _
          "\<lparr>date_now = 1, math_random = ''0.5'', new_date = 1\<rparr>" None room_initial _ "[]"]
    malformed_payload_is_swallowed
      [of "\<lambda>b. Inr (JObject [(''type'', JString ''transcription''),
                                (''text'', JString [CHR 0xEF, CHR 0xBF, CHR 0xBD])])"
          "[0x7B, 0x22, 0x74, 0x79, 0x70, 0x65, 0x22, 0x3A, 0x22, 0x74, 0x72, 0x61, 0x6E,
            0x73, 0x63, 0x72, 0x69, 0x70, 0x74, 0x69, 0x6F, 0x6E, 0x22, 0x2C, 0x22, 0x74,
            0x65, 0x78, 0x74, 0x22, 0x3A, 0x22, 0xFF, 0x22, 0x7D]" _
          "\<lparr>date_now = 1, math_random = ''0.5'', new_date = 1\<rparr>" None room_initial _
          "[(''type'', JString ''transcription''),
            (''text'', JString [CHR 0xEF, CHR 0xBF, CHR 0xBD])]"]
  by (simp add: in_range_def room_initial_def)

section \<open>Who spoke\<close>

text \<open>
  C5 as the specification states it: the speaker of the entry is the identity of the
  sender whenever there is a sender. A sender whose identity is the empty string is
  present, yet the speaker stored is \<open>User\<close>, and the entry is not a message of the user.
\<close>

theorem empty_identity_counterexample:
  "participant
     (last (transcripts
        (snd (handleDataReceived
                (\<lambda>b. Inr (JObject [(''type'', JString ''transcription''), (''text'', JString ''hi'')]))
                \<lparr>date_now = 1, math_random = ''0.5'', new_date = 1\<rparr> []
                (Some \<lparr>identity = []\<rparr>) room_initial)))) = ''User'' \<and>
   ''User'' \<noteq> identity \<lparr>identity = []\<rparr> \<and>
   \<not> isUser
     (last (transcripts
        (snd (handleDataReceived
                (\<lambda>b. Inr (JObject [(''type'', JString ''transcription''), (''text'', JString ''hi'')]))
                \<lparr>date_now = 1, math_random = ''0.5'', new_date = 1\<rparr> []
                (Some \<lparr>identity = []\<rparr>) room_initial))))"
  by (simp add: handleDataReceived_def addTranscriptMessage_def newMessage_def room_initial_def)

text \<open>
  C5, amended. For a payload that parses to an object whose \<^verbatim>\<open>type\<close> is
  \<open>transcription\<close>, exactly one entry is appended. It is a message of the user exactly
  when there is no sender or the identity of the sender is \<open>user\<close>. Its speaker is the
  identity of the sender when there is a sender with a non-empty identity, and \<open>User\<close>
  otherwise. An entry of the user is shown under the label \<open>You\<close>, any other entry under
  its speaker.
\<close>

theorem transcription_speaker:
  assumes "parse bytes = Inr (JObject kvs)"
    and "map_of kvs ''type'' = Some (JString ''transcription'')"
  shows "length (transcripts (snd (handleDataReceived parse st bytes sender r))) =
           Suc (length (transcripts r)) \<and>
         take (length (transcripts r)) (transcripts (snd (handleDataReceived parse st bytes sender r))) =
           transcripts r \<and>
         (isUser (last (transcripts (snd (handleDataReceived parse st bytes sender r)))) \<longleftrightarrow>
            sender = None \<or> (\<exists>p. sender = Some p \<and> identity p = ''user'')) \<and>
         participant (last (transcripts (snd (handleDataReceived parse st bytes sender r)))) =
           (case sender of None \<Rightarrow> ''User''
            | Some p \<Rightarrow> if identity p = [] then ''User'' else identity p) \<and>
         participantName (last (transcripts (snd (handleDataReceived parse st bytes sender r)))) =
           (if sender = None \<or> (\<exists>p. sender = Some p \<and> identity p = ''user'') then ''You''
            else participant (last (transcripts (snd (handleDataReceived parse st bytes sender r)))))"
  using assms
  by (cases sender)
     (simp_all add: handleDataReceived_def addTranscriptMessage_def newMessage_def
        participantName_def)

theorem transcription_speaker_witness:
  "participantName
     (last (transcripts
        (snd (handleDataReceived
                (\<lambda>b. Inr (JObject [(''type'', JString ''transcription''), (''text'', JString ''hi'')]))
                \<lparr>date_now = 1, math_random = ''0.5'', new_date = 1\<rparr> []
                (Some \<lparr>identity = ''user''\<rparr>) room_initial)))) = ''You''"
  using transcription_speaker
    [of "\<lambda>b. Inr (JObject [(''type'', JString ''transcription''), (''text'', JString ''hi'')])"
        "[]" "[(''type'', JString ''transcription''), (''text'', JString ''hi'')]"
        "\<lparr>date_now = 1, math_random = ''0.5'', new_date = 1\<rparr>"
        "Some \<lparr>identity = ''user''\<rparr>" room_initial]
  by simp

section \<open>Disconnecting\<close>

text \<open>
  C6 as the specification states it: the transcript is the same after a disconnect as
  before it. In the code the transcript is a state cell of \<^verbatim>\<open>RoomContent\<close>, which
  \<^verbatim>\<open>HomeScreen\<close> stops rendering once \<^verbatim>\<open>shouldConnect\<close> is false: after the welcome entry
  and a disconnect no transcript is left, and connecting again starts from the empty
  list.
\<close>

theorem disconnect_drops_transcript_counterexample:
  "transcript_shown
     (app_step (Some ''wss://x'') (Some ''abc'') (\<lambda>b. Inl SyntaxError) PressDisconnect
        (Mounted
           \<lparr>home = \<lparr>shouldConnect = True, error = None\<rparr>,
            room = Some (welcomeEffect \<lparr>date_now = 1, math_random = ''0.5'', new_date = 1\<rparr>
                           room_initial)\<rparr>)) \<noteq>
   transcript_shown
     (Mounted
        \<lparr>home = \<lparr>shouldConnect = True, error = None\<rparr>,
         room = Some (welcomeEffect \<lparr>date_now = 1, math_random = ''0.5'', new_date = 1\<rparr>
                        room_initial)\<rparr>) \<and>
   transcript_shown
     (app_step (Some ''wss://x'') (Some ''abc'') (\<lambda>b. Inl SyntaxError) PressConnect
        (app_step (Some ''wss://x'') (Some ''abc'') (\<lambda>b. Inl SyntaxError) PressDisconnect
           (Mounted
              \<lparr>home = \<lparr>shouldConnect = True, error = None\<rparr>,
               room = Some (welcomeEffect \<lparr>date_now = 1, math_random = ''0.5'', new_date = 1\<rparr>
                              room_initial)\<rparr>))) = Some []"
  by (simp add: disconnect_step connect_step transcript_shown_def room_of_def falsy_simps
        welcomeEffect_def addTranscriptMessage_def room_initial_def)

text \<open>
  C6, amended. \<^verbatim>\<open>disconnect\<close> only sets \<^verbatim>\<open>shouldConnect\<close> to false, so the start screen
  is rendered. \<^verbatim>\<open>RoomContent\<close> is thereby unmounted and its transcript dropped; after a
  later connect with valid credentials the transcript is empty. As long as
  \<^verbatim>\<open>RoomContent\<close> stays mounted, every event other than the press on the clear button
  keeps the entries that were there, in place.
\<close>

theorem disconnect_unmounts_room:
  "disconnect h = h\<lparr>shouldConnect := False\<rparr> \<and>
   render (disconnect h) = StartView (if falsy (error h) then None else error h) \<and>
   home_of (app_step url jwt parse PressDisconnect (Mounted a)) =
     Some ((home a)\<lparr>shouldConnect := False\<rparr>) \<and>
   room_of (app_step url jwt parse PressDisconnect (Mounted a)) = None \<and>
   transcript_shown (app_step url jwt parse PressDisconnect (Mounted a)) = None \<and>
   (\<not> falsy url \<and> \<not> falsy jwt \<longrightarrow>
      transcript_shown
        (app_step url jwt parse PressConnect
           (app_step url jwt parse PressDisconnect (Mounted a))) =
      Some []) \<and>
   (room a = Some r \<and> room_of (app_step url jwt parse ev (Mounted a)) = Some r' \<and>
    ev \<noteq> PressClear \<longrightarrow>
      take (length (transcripts r)) (transcripts r') = transcripts r)"
proof (intro conjI impI)
  show "disconnect h = h\<lparr>shouldConnect := False\<rparr>"
    by (simp add: disconnect_def)
  show "render (disconnect h) = StartView (if falsy (error h) then None else error h)"
    by (simp add: disconnect_def render_def)
  show "home_of (app_step url jwt parse PressDisconnect (Mounted a)) =
     Some ((home a)\<lparr>shouldConnect := False\<rparr>)"
    by (simp add: disconnect_step home_of_def)
  show "room_of (app_step url jwt parse PressDisconnect (Mounted a)) = None"
    by (simp add: disconnect_step room_of_def)
  show "transcript_shown (app_step url jwt parse PressDisconnect (Mounted a)) = None"
    by (simp add: disconnect_step transcript_shown_def room_of_def)
next
  assume "\<not> falsy url \<and> \<not> falsy jwt"
  then show "transcript_shown
        (app_step url jwt parse PressConnect
           (app_step url jwt parse PressDisconnect (Mounted a))) =
      Some []"
    by (simp add: disconnect_step connect_step transcript_shown_def room_of_def
          room_initial_def)
next
  assume h: "room a = Some r \<and> room_of (app_step url jwt parse ev (Mounted a)) = Some r' \<and>
    ev \<noteq> PressClear"
  then have "room (app_update url jwt parse ev a) = Some r'"
    by (simp add: room_of_step)
  with h show "take (length (transcripts r)) (transcripts r') = transcripts r"
    by (blast intro: app_update_keeps_entries)
qed

theorem disconnect_unmounts_room_witness:
  "transcript_shown
     (app_step (Some ''wss://x'') (Some ''abc'') (\<lambda>b. Inl SyntaxError) PressConnect
        (app_step (Some ''wss://x'') (Some ''abc'') (\<lambda>b. Inl SyntaxError) PressDisconnect
           (Mounted
              \<lparr>home = \<lparr>shouldConnect = True, error = None\<rparr>,
               room = Some (welcomeEffect \<lparr>date_now = 1, math_random = ''0.5'', new_date = 1\<rparr>
                              room_initial)\<rparr>))) = Some [] \<and>
   take 1
     (transcripts
        (snd (participantsEffect
                [(\<lparr>identity = ''agent-1''\<rparr>, \<lparr>date_now = 5, math_random = ''0.5'', new_date = 5\<rparr>)]
                (welcomeEffect \<lparr>date_now = 1, math_random = ''0.5'', new_date = 1\<rparr>
                   room_initial)))) =
   transcripts (welcomeEffect \<lparr>date_now = 1, math_random = ''0.5'', new_date = 1\<rparr> room_initial)"
  using disconnect_unmounts_room
    [of _ "Some ''wss://x''" "Some ''abc''" "\<lambda>b. Inl SyntaxError"
        "\<lparr>home = \<lparr>shouldConnect = True, error = None\<rparr>,
          room = Some (welcomeEffect \<lparr>date_now = 1, math_random = ''0.5'', new_date = 1\<rparr>
                         room_initial)\<rparr>"
        "welcomeEffect \<lparr>date_now = 1, math_random = ''0.5'', new_date = 1\<rparr> room_initial"
        "ParticipantsEffect
           [(\<lparr>identity = ''agent-1''\<rparr>, \<lparr>date_now = 5, math_random = ''0.5'', new_date = 5\<rparr>)]"
        "snd (participantsEffect
                [(\<lparr>identity = ''agent-1''\<rparr>, \<lparr>date_now = 5, math_random = ''0.5'', new_date = 5\<rparr>)]
                (welcomeEffect \<lparr>date_now = 1, math_random = ''0.5'', new_date = 1\<rparr>
                   room_initial))"]
  by (simp add: falsy_simps on_room_def welcomeEffect_def room_initial_def
        addTranscriptMessage_def participantsEffect_def newMessage_def disconnect_step
        connect_step room_of_def transcript_shown_def)

section \<open>Failures reported by the room\<close>




end
